theory Spec2Isabelle
  imports Main
begin

section \<open>Values exchanged with the outside\<close>

text \<open>
  JSON documents, as Python holds them after decoding: \<open>None\<close>, booleans, integers,
  strings, lists and dictionaries with string keys (an association list; decoded
  dictionaries have distinct keys). Numbers with a fractional part are left out.
\<close>

datatype json =
    JNull
  | JBool bool
  | JInt int
  | JStr string
  | JList "json list"
  | JDict "(string \<times> json) list"

text \<open>
  The exceptions that can travel through the endpoints. \<open>HTTPException\<close> is what
  FastAPI turns into the response (status code, detail); \<open>RequestException\<close> is the
  base class of everything the HTTP client raises, with its text; \<open>ApiException\<close> is the
  cluster client's error (status, reason). The remaining ones are never caught by the
  endpoints.
\<close>

datatype exn =
    HTTPException int string
  | RequestException string
  | ApiException int string
  | KeyError
  | IndexError
  | TypeError
  | AttributeError
  | OtherException string

subsection \<open>Python's dynamic operations on decoded values\<close>

text \<open>\<open>v[k]\<close> with a string key.\<close>

fun getitem :: "json \<Rightarrow> string \<Rightarrow> exn + json" where
  "getitem (JDict kvs) k = (case map_of kvs k of None \<Rightarrow> Inl KeyError | Some v \<Rightarrow> Inr v)"
| "getitem _ k = Inl TypeError"

text \<open>\<open>v[i]\<close> with a non-negative integer index.\<close>

fun getitem_idx :: "json \<Rightarrow> nat \<Rightarrow> exn + json" where
  "getitem_idx (JList xs) i = (if i < length xs then Inr (xs ! i) else Inl IndexError)"
| "getitem_idx (JStr s) i = (if i < length s then Inr (JStr [s ! i]) else Inl IndexError)"
| "getitem_idx (JDict kvs) i = Inl KeyError"
| "getitem_idx _ i = Inl TypeError"

text \<open>\<open>v == n\<close> and \<open>v > n\<close> against an integer literal; \<open>True\<close> counts as 1.\<close>

fun py_eq_int :: "json \<Rightarrow> int \<Rightarrow> bool" where
  "py_eq_int (JInt i) n = (i = n)"
| "py_eq_int (JBool b) n = ((if b then 1 else 0) = n)"
| "py_eq_int _ n = False"

fun py_gt_int :: "json \<Rightarrow> int \<Rightarrow> exn + bool" where
  "py_gt_int (JInt i) n = Inr (i > n)"
| "py_gt_int (JBool b) n = Inr ((if b then 1 else 0) > n)"
| "py_gt_int _ n = Inl TypeError"

text \<open>\<open>d.get(k)\<close>: the value, \<open>None\<close> for a missing key; only dictionaries have it.\<close>

fun dict_get :: "json \<Rightarrow> string \<Rightarrow> exn + json" where
  "dict_get (JDict kvs) k = (case map_of kvs k of None \<Rightarrow> Inr JNull | Some v \<Rightarrow> Inr v)"
| "dict_get _ k = Inl AttributeError"

subsection \<open>String formatting\<close>

definition digit_char :: "nat \<Rightarrow> char" where
  "digit_char d = ''0123456789'' ! d"

function str_nat :: "nat \<Rightarrow> string" where
  "str_nat n = (if n < 10 then [digit_char n] else str_nat (n div 10) @ [digit_char (n mod 10)])"
  by pat_completeness auto
termination
  by (relation "measure id") auto

declare str_nat.simps [simp del]

text \<open>\<open>str(i)\<close> for an integer: decimal digits, a minus sign when negative.\<close>

definition str_int :: "int \<Rightarrow> string" where
  "str_int i = (if i < 0 then CHR ''-'' # str_nat (nat (- i)) else str_nat (nat i))"

text \<open>
  What an f-string puts in place of \<open>{v}\<close>. For lists and dictionaries Python prints
  their \<open>repr\<close>, which is taken as a parameter.
\<close>

fun py_str :: "(json \<Rightarrow> string) \<Rightarrow> json \<Rightarrow> string" where
  "py_str rp JNull = ''None''"
| "py_str rp (JBool b) = (if b then ''True'' else ''False'')"
| "py_str rp (JInt i) = str_int i"
| "py_str rp (JStr s) = s"
| "py_str rp v = rp v"

text \<open>An optional string (an environment variable) in an f-string, and under \<open>not\<close>.\<close>

fun py_fmt :: "string option \<Rightarrow> string" where
  "py_fmt None = ''None''"
| "py_fmt (Some s) = s"

fun py_not :: "string option \<Rightarrow> bool" where
  "py_not None = True"
| "py_not (Some s) = (s = [])"

text \<open>\<open>'{s}'\<close>: the string between apostrophes.\<close>

definition quoted :: "string \<Rightarrow> string" where
  "quoted s = CHR 0x27 # s @ [CHR 0x27]"

section \<open>The outside world\<close>

text \<open>
  A response of the HTTP client library: status code, reason phrase, final URL and what
  \<open>json()\<close> gives (the decoded body, or the text of the decoding error).
\<close>

record response =
  status_code :: int
  resp_reason :: string
  resp_url :: string
  decoded :: "string + json"

text \<open>
  \<open>raise_for_status()\<close> of the HTTP client library: an \<open>HTTPError\<close> (a
  \<open>RequestException\<close>) for the status codes 400 to 599, nothing otherwise.
\<close>

definition raise_for_status :: "response \<Rightarrow> exn + unit" where
  "raise_for_status r =
     (if 400 \<le> status_code r \<and> status_code r < 500 then
        Inl (RequestException (str_int (status_code r) @ '' Client Error: '' @ resp_reason r
                                @ '' for url: '' @ resp_url r))
      else if 500 \<le> status_code r \<and> status_code r < 600 then
        Inl (RequestException (str_int (status_code r) @ '' Server Error: '' @ resp_reason r
                                @ '' for url: '' @ resp_url r))
      else Inr ())"

text \<open>
  \<open>json()\<close>: the decoded body; the library's decoding error is a
  \<open>RequestException\<close> too (from version 2.27 of the library on).
\<close>

definition response_json :: "response \<Rightarrow> exn + json" where
  "response_json r = (case decoded r of Inl e \<Rightarrow> Inl (RequestException e) | Inr d \<Rightarrow> Inr d)"

datatype http_reply = Raises string | Returns response

datatype k8s_reply = Created json | RaisesApiException int string | RaisesOther string

type_synonym headers = "(string \<times> string) list"

text \<open>
  How the automation controller, the cluster and the Python runtime answer. The HTTP
  functions take the URL, the headers, the query parameters or JSON body, and
  \<open>verify\<close>; the cluster function takes group, version, namespace, plural and body.
  \<open>py_repr\<close> is Python's \<open>repr\<close> of lists and dictionaries.
\<close>

record world =
  requests_get :: "string \<Rightarrow> headers \<Rightarrow> (string \<times> string) list \<Rightarrow> bool \<Rightarrow> http_reply"
  requests_post :: "string \<Rightarrow> headers \<Rightarrow> json \<Rightarrow> bool \<Rightarrow> http_reply"
  create_namespaced_custom_object ::
    "string \<Rightarrow> string \<Rightarrow> string \<Rightarrow> string \<Rightarrow> json \<Rightarrow> k8s_reply"
  py_repr :: "json \<Rightarrow> string"

text \<open>The outbound calls an endpoint made, in order.\<close>

datatype call =
    GET string headers "(string \<times> string) list" bool
  | POST string headers json bool
  | CreateNamespacedCustomObject string string string string json

section \<open>Configuration and request models\<close>

record config =
  AAP_CONTROLLER_URL :: "string option"
  AAP_API_TOKEN :: "string option"

record AAPJob =
  job_template_name :: string
  extra_vars :: "(string \<times> json) list"

record VirtualMachine =
  vm_name :: string
  namespace :: string

datatype endpoint = Root | CreateVm VirtualMachine | LaunchAapJob AAPJob

section \<open>Helper functions\<close>

text \<open>
  \<open>except requests.exceptions.RequestException as e: raise HTTPException(503, ...)\<close>:
  a \<open>RequestException\<close> becomes a 503 whose detail ends with its text; any other
  exception, an \<open>HTTPException\<close> raised inside the \<open>try\<close> included, passes through.
\<close>

fun except_RequestException :: "string \<Rightarrow> exn + 'a \<Rightarrow> exn + 'a" where
  "except_RequestException msg (Inl (RequestException e)) = Inl (HTTPException 503 (msg @ e))"
| "except_RequestException msg r = r"

text \<open>The body of the \<open>try\<close> block of \<open>get_job_template_id\<close>.\<close>

definition get_job_template_id_try ::
  "world \<Rightarrow> string \<Rightarrow> headers \<Rightarrow> (string \<times> string) list \<Rightarrow> string \<Rightarrow> exn + json" where
  "get_job_template_id_try w url hdrs query_params template_name =
     (case requests_get w url hdrs query_params False of
        Raises e \<Rightarrow> Inl (RequestException e)
      | Returns response \<Rightarrow>
          (case raise_for_status response of
             Inl e \<Rightarrow> Inl e
           | Inr _ \<Rightarrow>
               (case response_json response of
                  Inl e \<Rightarrow> Inl e
                | Inr data \<Rightarrow>
                    (case getitem data ''count'' of
                       Inl e \<Rightarrow> Inl e
                     | Inr count \<Rightarrow>
                         if py_eq_int count 1 then
                           (case getitem data ''results'' of
                              Inl e \<Rightarrow> Inl e
                            | Inr results \<Rightarrow>
                                (case getitem_idx results 0 of
                                   Inl e \<Rightarrow> Inl e
                                 | Inr r \<Rightarrow> getitem r ''id''))
                         else
                           (case py_gt_int count 1 of
                              Inl e \<Rightarrow> Inl e
                            | Inr True \<Rightarrow>
                                Inl (HTTPException 409
                                  (''Conflict: Multiple job templates found with name ''
                                    @ quoted template_name @ ''.''))
                            | Inr False \<Rightarrow>
                                Inl (HTTPException 404
                                  (''Not Found: No job template found with name ''
                                    @ quoted template_name @ ''.'')))))))"

definition get_job_template_id ::
  "config \<Rightarrow> world \<Rightarrow> string \<Rightarrow> headers \<Rightarrow> call list \<times> (exn + json)" where
  "get_job_template_id cfg w template_name hdrs =
     (if py_not (AAP_CONTROLLER_URL cfg) then
        ([], Inl (HTTPException 500 ''AAP_CONTROLLER_URL is not configured.''))
      else
        let url = py_fmt (AAP_CONTROLLER_URL cfg) @ ''/api/v2/job_templates/'';
            query_params = [(''name'', template_name)]
        in ([GET url hdrs query_params False],
            except_RequestException ''Service Unavailable: Could not connect to AAP. Error: ''
              (get_job_template_id_try w url hdrs query_params template_name)))"

section \<open>API endpoints\<close>

definition root :: "call list \<times> (exn + json)" where
  "root = ([], Inr (JDict [(''message'',
             JStr ''MCP Server for OpenShift Administration is running'')]))"

subsection \<open>create_vm\<close>

definition vm_manifest :: "VirtualMachine \<Rightarrow> json" where
  "vm_manifest vm =
     JDict [
       (''apiVersion'', JStr ''kubevirt.io/v1''),
       (''kind'', JStr ''VirtualMachine''),
       (''metadata'', JDict [(''name'', JStr (vm_name vm))]),
       (''spec'', JDict [
          (''running'', JBool False),
          (''template'', JDict [
             (''spec'', JDict [
                (''domain'', JDict [
                   (''devices'', JDict [
                      (''disks'', JList [
                         JDict [(''name'', JStr ''containerdisk''),
                                (''disk'', JDict [(''bus'', JStr ''virtio'')])]])]),
                   (''resources'', JDict [
                      (''requests'', JDict [(''memory'', JStr ''2Gi'')])])]),
                (''volumes'', JList [
                   JDict [(''name'', JStr ''containerdisk''),
                          (''containerDisk'', JDict [
                             (''image'', JStr ''quay.io/containerdisks/rhel:9'')])]])])])])]"

definition create_vm :: "world \<Rightarrow> VirtualMachine \<Rightarrow> call list \<times> (exn + json)" where
  "create_vm w vm =
     (let body = vm_manifest vm
      in ([CreateNamespacedCustomObject ''kubevirt.io'' ''v1'' (namespace vm)
             ''virtualmachines'' body],
          (case create_namespaced_custom_object w ''kubevirt.io'' ''v1'' (namespace vm)
                  ''virtualmachines'' body of
             Created _ \<Rightarrow>
               Inr (JDict [
                 (''status'', JStr ''success''),
                 (''message'', JStr (''VirtualMachine '' @ quoted (vm_name vm)
                    @ '' created successfully in namespace '' @ quoted (namespace vm)
                    @ ''.''))])
           | RaisesApiException st rs \<Rightarrow>
               Inl (HTTPException st
                      (''Kubernetes API Error: Failed to create VM. Reason: '' @ rs))
           | RaisesOther e \<Rightarrow> Inl (OtherException e))))"

subsection \<open>launch_aap_job\<close>

text \<open>The body of the \<open>try\<close> block of \<open>launch_aap_job\<close>.\<close>

definition launch_aap_job_try ::
  "config \<Rightarrow> world \<Rightarrow> AAPJob \<Rightarrow> string \<Rightarrow> headers \<Rightarrow> exn + json" where
  "launch_aap_job_try cfg w job launch_url hdrs =
     (case requests_post w launch_url hdrs
             (JDict [(''extra_vars'', JDict (extra_vars job))]) False of
        Raises e \<Rightarrow> Inl (RequestException e)
      | Returns launch_response \<Rightarrow>
          (case raise_for_status launch_response of
             Inl e \<Rightarrow> Inl e
           | Inr _ \<Rightarrow>
               (case response_json launch_response of
                  Inl e \<Rightarrow> Inl e
                | Inr job_data \<Rightarrow>
                    (case dict_get job_data ''job'' of
                       Inl e \<Rightarrow> Inl e
                     | Inr job_id \<Rightarrow>
                         Inr (JDict [
                           (''status'', JStr ''success''),
                           (''message'', JStr (''Successfully launched job template ''
                              @ quoted (job_template_name job) @ ''.'')),
                           (''job_id'', job_id),
                           (''aap_url'', JStr (py_fmt (AAP_CONTROLLER_URL cfg)
                              @ ''/#/jobs/playbook/'' @ py_str (py_repr w) job_id))])))))"

definition launch_aap_job :: "config \<Rightarrow> world \<Rightarrow> AAPJob \<Rightarrow> call list \<times> (exn + json)" where
  "launch_aap_job cfg w job =
     (if py_not (AAP_API_TOKEN cfg) then
        ([], Inl (HTTPException 500 ''AAP_API_TOKEN is not configured.''))
      else
        let hdrs = [(''Content-Type'', ''application/json''),
                    (''Authorization'', ''Bearer '' @ py_fmt (AAP_API_TOKEN cfg))]
        in (case get_job_template_id cfg w (job_template_name job) hdrs of
              (calls, Inl e) \<Rightarrow> (calls, Inl e)
            | (calls, Inr template_id) \<Rightarrow>
                let launch_url = py_fmt (AAP_CONTROLLER_URL cfg) @ ''/api/v2/job_templates/''
                                   @ py_str (py_repr w) template_id @ ''/launch/''
                in (calls @ [POST launch_url hdrs
                               (JDict [(''extra_vars'', JDict (extra_vars job))]) False],
                    except_RequestException
                      ''Service Unavailable: Failed to launch job in AAP. Error: ''
                      (launch_aap_job_try cfg w job launch_url hdrs))))"

subsection \<open>The application\<close>

text \<open>
  One request against the running process: its configuration, the outside world, and
  the endpoint called with its validated body.
\<close>

fun app :: "config \<Rightarrow> world \<Rightarrow> endpoint \<Rightarrow> call list \<times> (exn + json)" where
  "app cfg w Root = root"
| "app cfg w (CreateVm vm) = create_vm w vm"
| "app cfg w (LaunchAapJob job) = launch_aap_job cfg w job"

section \<open>Concrete configurations, worlds and requests\<close>

text \<open>A world that gives the same answer to every call of each kind.\<close>

definition fixed_world :: "http_reply \<Rightarrow> http_reply \<Rightarrow> k8s_reply \<Rightarrow> world" where
  "fixed_world g p k =
     \<lparr>requests_get = (\<lambda>url hdrs params verify. g),
      requests_post = (\<lambda>url hdrs body verify. p),
      create_namespaced_custom_object = (\<lambda>grp ver ns plural body. k),
      py_repr = (\<lambda>v. [])\<rparr>"

definition demo_cfg :: config where
  "demo_cfg = \<lparr>AAP_CONTROLLER_URL = Some ''https://aap.example.com'',
               AAP_API_TOKEN = Some ''s3cret''\<rparr>"

definition demo_headers :: headers where
  "demo_headers = [(''Content-Type'', ''application/json''),
                   (''Authorization'', ''Bearer s3cret'')]"

definition demo_job :: AAPJob where
  "demo_job = \<lparr>job_template_name = ''Deploy-App'', extra_vars = []\<rparr>"

definition demo_vm :: VirtualMachine where
  "demo_vm = \<lparr>vm_name = ''test-vm'', namespace = ''default''\<rparr>"

text \<open>A response with the given status code, reason phrase and decoded body.\<close>

definition response_with :: "int \<Rightarrow> string \<Rightarrow> json \<Rightarrow> response" where
  "response_with st rs data =
     \<lparr>status_code = st, resp_reason = rs,
      resp_url = ''https://aap.example.com/api/v2/job_templates/'', decoded = Inr data\<rparr>"

text \<open>The lookup body \<open>{count: c, results: [{id: i}, ...]}\<close> for the given identifiers.\<close>

definition lookup_data :: "int \<Rightarrow> int list \<Rightarrow> json" where
  "lookup_data c ids =
     JDict [(''count'', JInt c), (''results'', JList (map (\<lambda>i. JDict [(''id'', JInt i)]) ids))]"

section \<open>Unfolding the helpers under their guards\<close>

lemma get_job_template_id_configured:
  assumes "AAP_CONTROLLER_URL cfg = Some base" and "base \<noteq> []"
  shows "get_job_template_id cfg w n hdrs =
           ([GET (base @ ''/api/v2/job_templates/'') hdrs [(''name'', n)] False],
            except_RequestException ''Service Unavailable: Could not connect to AAP. Error: ''
              (get_job_template_id_try w (base @ ''/api/v2/job_templates/'') hdrs
                 [(''name'', n)] n))"
  using assms by (simp add: get_job_template_id_def Let_def)

lemma raise_for_status_ok:
  "status_code r < 400 \<or> 600 \<le> status_code r \<Longrightarrow> raise_for_status r = Inr ()"
  by (auto simp add: raise_for_status_def)

lemma raise_for_status_error:
  assumes "400 \<le> status_code r" and "status_code r < 600"
  shows "raise_for_status r =
           Inl (RequestException (str_int (status_code r)
                  @ (if status_code r < 500 then '' Client Error: '' else '' Server Error: '')
                  @ resp_reason r @ '' for url: '' @ resp_url r))"
  using assms by (simp add: raise_for_status_def)

lemma get_job_template_id_try_decoded:
  assumes "requests_get w url hdrs qp False = Returns response"
      and "status_code response < 400 \<or> 600 \<le> status_code response"
      and "decoded response = Inr data"
      and "getitem data ''count'' = Inr (JInt c)"
  shows "get_job_template_id_try w url hdrs qp n =
           (if c = 1 then
              (case getitem data ''results'' of
                 Inl e \<Rightarrow> Inl e
               | Inr results \<Rightarrow>
                   (case getitem_idx results 0 of
                      Inl e \<Rightarrow> Inl e
                    | Inr r \<Rightarrow> getitem r ''id''))
            else if c > 1 then
              Inl (HTTPException 409
                    (''Conflict: Multiple job templates found with name '' @ quoted n @ ''.''))
            else
              Inl (HTTPException 404
                    (''Not Found: No job template found with name '' @ quoted n @ ''.'')))"
  using assms
  by (simp add: get_job_template_id_try_def raise_for_status_ok response_json_def)

lemma launch_aap_job_lookup_failed:
  assumes "AAP_API_TOKEN cfg = Some tok" and "tok \<noteq> []"
      and "get_job_template_id cfg w (job_template_name job)
             [(''Content-Type'', ''application/json''), (''Authorization'', ''Bearer '' @ tok)]
           = (calls, Inl e)"
  shows "launch_aap_job cfg w job = (calls, Inl e)"
  using assms by (simp add: launch_aap_job_def)

lemma launch_aap_job_lookup_succeeded:
  assumes "AAP_API_TOKEN cfg = Some tok" and "tok \<noteq> []"
      and "get_job_template_id cfg w (job_template_name job)
             [(''Content-Type'', ''application/json''), (''Authorization'', ''Bearer '' @ tok)]
           = (calls, Inr template_id)"
  shows "launch_aap_job cfg w job =
           (calls @ [POST (py_fmt (AAP_CONTROLLER_URL cfg) @ ''/api/v2/job_templates/''
                            @ py_str (py_repr w) template_id @ ''/launch/'')
                       [(''Content-Type'', ''application/json''),
                        (''Authorization'', ''Bearer '' @ tok)]
                       (JDict [(''extra_vars'', JDict (extra_vars job))]) False],
            except_RequestException ''Service Unavailable: Failed to launch job in AAP. Error: ''
              (launch_aap_job_try cfg w job
                 (py_fmt (AAP_CONTROLLER_URL cfg) @ ''/api/v2/job_templates/''
                    @ py_str (py_repr w) template_id @ ''/launch/'')
                 [(''Content-Type'', ''application/json''),
                  (''Authorization'', ''Bearer '' @ tok)]))"
  using assms by (simp add: launch_aap_job_def Let_def)

section \<open>The job launch workflow\<close>

text \<open>
  Claim C5. If the bearer token is not configured (the environment variable is unset, or
  set to the empty string), \<open>launch_aap_job\<close> fails with status 500 and the detail
  \<open>AAP_API_TOKEN is not configured.\<close>, and the list of outbound calls is empty: neither
  the template lookup nor the launch call is made.
\<close>

theorem token_unset_no_outbound_call:
  assumes "AAP_API_TOKEN cfg = None \<or> AAP_API_TOKEN cfg = Some []"
  shows "launch_aap_job cfg w job =
           ([], Inl (HTTPException 500 ''AAP_API_TOKEN is not configured.''))"
  using assms by (auto simp add: launch_aap_job_def)

theorem token_unset_no_outbound_call_witness:
  "launch_aap_job \<lparr>AAP_CONTROLLER_URL = Some ''https://aap.example.com'', AAP_API_TOKEN = None\<rparr>
     (fixed_world (Returns (response_with 200 ''OK'' (lookup_data 1 [42])))
                  (Returns (response_with 201 ''Created'' (JDict [(''job'', JInt 101)])))
                  (Created JNull))
     demo_job =
   ([], Inl (HTTPException 500 ''AAP_API_TOKEN is not configured.''))"
  using token_unset_no_outbound_call
    [of "\<lparr>AAP_CONTROLLER_URL = Some ''https://aap.example.com'', AAP_API_TOKEN = None\<rparr>"
        "fixed_world (Returns (response_with 200 ''OK'' (lookup_data 1 [42])))
                  (Returns (response_with 201 ''Created'' (JDict [(''job'', JInt 101)])))
                  (Created JNull)" demo_job]
  by simp

text \<open>
  Claim C6. With both settings configured, if the lookup for the template name is
  answered (no error status, decodable body) with \<open>count\<close> equal to 0, then
  \<open>get_job_template_id\<close> fails with status 404 and a detail that carries the requested
  name, after the single lookup call; and \<open>launch_aap_job\<close> gives exactly the same
  outcome: the same exception, and the same list of calls, so no launch call is made.
\<close>

theorem no_match_not_found_propagated:
  assumes "AAP_CONTROLLER_URL cfg = Some base" and "base \<noteq> []"
      and "AAP_API_TOKEN cfg = Some tok" and "tok \<noteq> []"
      and "hdrs = [(''Content-Type'', ''application/json''),
                   (''Authorization'', ''Bearer '' @ tok)]"
      and "requests_get w (base @ ''/api/v2/job_templates/'') hdrs
             [(''name'', job_template_name job)] False = Returns response"
      and "status_code response < 400 \<or> 600 \<le> status_code response"
      and "decoded response = Inr data"
      and "getitem data ''count'' = Inr (JInt 0)"
  shows "get_job_template_id cfg w (job_template_name job) hdrs =
           ([GET (base @ ''/api/v2/job_templates/'') hdrs
               [(''name'', job_template_name job)] False],
            Inl (HTTPException 404 (''Not Found: No job template found with name ''
                   @ quoted (job_template_name job) @ ''.'')))
         \<and> launch_aap_job cfg w job = get_job_template_id cfg w (job_template_name job) hdrs"
proof -
  have body: "get_job_template_id_try w (base @ ''/api/v2/job_templates/'') hdrs
               [(''name'', job_template_name job)] (job_template_name job) =
             Inl (HTTPException 404 (''Not Found: No job template found with name ''
                   @ quoted (job_template_name job) @ ''.''))"
    using assms(6-9) by (simp add: get_job_template_id_try_decoded)
  have lookup: "get_job_template_id cfg w (job_template_name job) hdrs =
           ([GET (base @ ''/api/v2/job_templates/'') hdrs
               [(''name'', job_template_name job)] False],
            Inl (HTTPException 404 (''Not Found: No job template found with name ''
                   @ quoted (job_template_name job) @ ''.'')))"
    using assms(1,2) body by (simp add: get_job_template_id_configured)
  have "launch_aap_job cfg w job = get_job_template_id cfg w (job_template_name job) hdrs"
    using launch_aap_job_lookup_failed [OF assms(3,4)] lookup assms(5) by simp
  with lookup show ?thesis by simp
qed

theorem no_match_not_found_propagated_witness:
  "launch_aap_job demo_cfg
     (fixed_world (Returns (response_with 200 ''OK'' (lookup_data 0 [])))
        (Returns (response_with 201 ''Created'' (JDict [(''job'', JInt 101)]))) (Created JNull))
     demo_job =
   ([GET ''https://aap.example.com/api/v2/job_templates/'' demo_headers
       [(''name'', ''Deploy-App'')] False],
    Inl (HTTPException 404 ''Not Found: No job template found with name 'Deploy-App'.''))"
  using no_match_not_found_propagated
    [of demo_cfg "''https://aap.example.com''" "''s3cret''" demo_headers
        "fixed_world (Returns (response_with 200 ''OK'' (lookup_data 0 [])))
           (Returns (response_with 201 ''Created'' (JDict [(''job'', JInt 101)]))) (Created JNull)"
        demo_job "response_with 200 ''OK'' (lookup_data 0 [])" "lookup_data 0 []"]
  by (simp add: demo_cfg_def demo_headers_def demo_job_def fixed_world_def response_with_def
        lookup_data_def quoted_def)

text \<open>
  Claim C1. With both settings configured, if the lookup for the template name is
  answered (no error status, decodable body) with \<open>count\<close> equal to 1 and a first
  result whose \<open>id\<close> is the integer \<open>i\<close>, then \<open>get_job_template_id\<close> returns
  \<open>i\<close>, and the calls of \<open>launch_aap_job\<close> are the lookup followed by one POST whose
  URL is the base URL, \<open>/api/v2/job_templates/\<close>, the decimal text of \<open>i\<close> and
  \<open>/launch/\<close>: the path is built from the identifier, not from the name.
\<close>

theorem single_match_id_in_launch_path:
  assumes "AAP_CONTROLLER_URL cfg = Some base" and "base \<noteq> []"
      and "AAP_API_TOKEN cfg = Some tok" and "tok \<noteq> []"
      and "hdrs = [(''Content-Type'', ''application/json''),
                   (''Authorization'', ''Bearer '' @ tok)]"
      and "requests_get w (base @ ''/api/v2/job_templates/'') hdrs
             [(''name'', job_template_name job)] False = Returns response"
      and "status_code response < 400 \<or> 600 \<le> status_code response"
      and "decoded response = Inr data"
      and "getitem data ''count'' = Inr (JInt 1)"
      and "getitem data ''results'' = Inr (JList (m # ms))"
      and "getitem m ''id'' = Inr (JInt i)"
  shows "get_job_template_id cfg w (job_template_name job) hdrs =
           ([GET (base @ ''/api/v2/job_templates/'') hdrs
               [(''name'', job_template_name job)] False], Inr (JInt i))
         \<and> fst (launch_aap_job cfg w job) =
           [GET (base @ ''/api/v2/job_templates/'') hdrs
              [(''name'', job_template_name job)] False,
            POST (base @ ''/api/v2/job_templates/'' @ str_int i @ ''/launch/'') hdrs
              (JDict [(''extra_vars'', JDict (extra_vars job))]) False]"
proof -
  have body: "get_job_template_id_try w (base @ ''/api/v2/job_templates/'') hdrs
               [(''name'', job_template_name job)] (job_template_name job) = Inr (JInt i)"
    using assms(6-11) by (simp add: get_job_template_id_try_decoded)
  have lookup: "get_job_template_id cfg w (job_template_name job) hdrs =
           ([GET (base @ ''/api/v2/job_templates/'') hdrs
               [(''name'', job_template_name job)] False], Inr (JInt i))"
    using assms(1,2) body by (simp add: get_job_template_id_configured)
  have "fst (launch_aap_job cfg w job) =
           [GET (base @ ''/api/v2/job_templates/'') hdrs
              [(''name'', job_template_name job)] False,
            POST (base @ ''/api/v2/job_templates/'' @ str_int i @ ''/launch/'') hdrs
              (JDict [(''extra_vars'', JDict (extra_vars job))]) False]"
    using launch_aap_job_lookup_succeeded [OF assms(3,4), of w job _ "JInt i"] lookup
      assms(1,5) by simp
  with lookup show ?thesis by simp
qed

theorem single_match_id_in_launch_path_witness:
  "fst (launch_aap_job demo_cfg
     (fixed_world (Returns (response_with 200 ''OK'' (lookup_data 1 [42])))
        (Returns (response_with 201 ''Created'' (JDict [(''job'', JInt 101)]))) (Created JNull))
     demo_job) =
   [GET ''https://aap.example.com/api/v2/job_templates/'' demo_headers
       [(''name'', ''Deploy-App'')] False,
    POST ''https://aap.example.com/api/v2/job_templates/42/launch/'' demo_headers
       (JDict [(''extra_vars'', JDict [])]) False]"
  using single_match_id_in_launch_path
    [of demo_cfg "''https://aap.example.com''" "''s3cret''" demo_headers
        "fixed_world (Returns (response_with 200 ''OK'' (lookup_data 1 [42])))
           (Returns (response_with 201 ''Created'' (JDict [(''job'', JInt 101)]))) (Created JNull)"
        demo_job "response_with 200 ''OK'' (lookup_data 1 [42])" "lookup_data 1 [42]"
        "JDict [(''id'', JInt 42)]" "[]" 42]
  by (simp add: demo_cfg_def demo_headers_def demo_job_def fixed_world_def response_with_def
        lookup_data_def str_int_def str_nat.simps digit_char_def)

text \<open>
  Claim C3 says the conflict error carries the requested name and the match count. The
  detail of the 409 carries the name only: for 2 and for 3 matches of the same name the
  exception is the same value, and no count occurs in it.
\<close>

theorem several_matches_conflict_counterexample:
  "snd (get_job_template_id demo_cfg
          (fixed_world (Returns (response_with 200 ''OK'' (lookup_data 2 [42, 43])))
             (Raises []) (Created JNull))
          ''Deploy-App'' demo_headers) =
     Inl (HTTPException 409 ''Conflict: Multiple job templates found with name 'Deploy-App'.'')
   \<and> snd (get_job_template_id demo_cfg
          (fixed_world (Returns (response_with 200 ''OK'' (lookup_data 3 [42, 43, 44])))
             (Raises []) (Created JNull))
          ''Deploy-App'' demo_headers) =
     Inl (HTTPException 409 ''Conflict: Multiple job templates found with name 'Deploy-App'.'')"
  by (simp add: get_job_template_id_def get_job_template_id_try_def raise_for_status_def
        response_json_def demo_cfg_def fixed_world_def response_with_def lookup_data_def
        quoted_def)

text \<open>
  Claim C3, as the code has it. With both settings configured, if the lookup is answered
  (no error status, decodable body) with an integer \<open>count\<close> greater than 1, then
  \<open>get_job_template_id\<close> fails with status 409 and a detail that carries the requested
  name (and not the count), after the single lookup call; and \<open>launch_aap_job\<close> gives
  exactly the same outcome, so no launch call is made.
\<close>

theorem several_matches_conflict_no_launch:
  assumes "AAP_CONTROLLER_URL cfg = Some base" and "base \<noteq> []"
      and "AAP_API_TOKEN cfg = Some tok" and "tok \<noteq> []"
      and "hdrs = [(''Content-Type'', ''application/json''),
                   (''Authorization'', ''Bearer '' @ tok)]"
      and "requests_get w (base @ ''/api/v2/job_templates/'') hdrs
             [(''name'', job_template_name job)] False = Returns response"
      and "status_code response < 400 \<or> 600 \<le> status_code response"
      and "decoded response = Inr data"
      and "getitem data ''count'' = Inr (JInt c)"
      and "1 < c"
  shows "get_job_template_id cfg w (job_template_name job) hdrs =
           ([GET (base @ ''/api/v2/job_templates/'') hdrs
               [(''name'', job_template_name job)] False],
            Inl (HTTPException 409 (''Conflict: Multiple job templates found with name ''
                   @ quoted (job_template_name job) @ ''.'')))
         \<and> launch_aap_job cfg w job = get_job_template_id cfg w (job_template_name job) hdrs"
proof -
  have body: "get_job_template_id_try w (base @ ''/api/v2/job_templates/'') hdrs
               [(''name'', job_template_name job)] (job_template_name job) =
             Inl (HTTPException 409 (''Conflict: Multiple job templates found with name ''
                   @ quoted (job_template_name job) @ ''.''))"
    using assms(6-10) by (simp add: get_job_template_id_try_decoded)
  have lookup: "get_job_template_id cfg w (job_template_name job) hdrs =
           ([GET (base @ ''/api/v2/job_templates/'') hdrs
               [(''name'', job_template_name job)] False],
            Inl (HTTPException 409 (''Conflict: Multiple job templates found with name ''
                   @ quoted (job_template_name job) @ ''.'')))"
    using assms(1,2) body by (simp add: get_job_template_id_configured)
  have "launch_aap_job cfg w job = get_job_template_id cfg w (job_template_name job) hdrs"
    using launch_aap_job_lookup_failed [OF assms(3,4)] lookup assms(5) by simp
  with lookup show ?thesis by simp
qed

theorem several_matches_conflict_no_launch_witness:
  "launch_aap_job demo_cfg
     (fixed_world (Returns (response_with 200 ''OK'' (lookup_data 2 [42, 43])))
        (Returns (response_with 201 ''Created'' (JDict [(''job'', JInt 101)]))) (Created JNull))
     demo_job =
   ([GET ''https://aap.example.com/api/v2/job_templates/'' demo_headers
       [(''name'', ''Deploy-App'')] False],
    Inl (HTTPException 409 ''Conflict: Multiple job templates found with name 'Deploy-App'.''))"
  using several_matches_conflict_no_launch
    [of demo_cfg "''https://aap.example.com''" "''s3cret''" demo_headers
        "fixed_world (Returns (response_with 200 ''OK'' (lookup_data 2 [42, 43])))
           (Returns (response_with 201 ''Created'' (JDict [(''job'', JInt 101)]))) (Created JNull)"
        demo_job "response_with 200 ''OK'' (lookup_data 2 [42, 43])" "lookup_data 2 [42, 43]" 2]
  by (simp add: demo_cfg_def demo_headers_def demo_job_def fixed_world_def response_with_def
        lookup_data_def quoted_def)

lemma launch_aap_job_try_decoded:
  assumes "requests_post w launch_url hdrs (JDict [(''extra_vars'', JDict (extra_vars job))])
             False = Returns launch_response"
      and "status_code launch_response < 400 \<or> 600 \<le> status_code launch_response"
      and "decoded launch_response = Inr (JDict kvs)"
  shows "launch_aap_job_try cfg w job launch_url hdrs =
           Inr (JDict [
             (''status'', JStr ''success''),
             (''message'', JStr (''Successfully launched job template ''
                @ quoted (job_template_name job) @ ''.'')),
             (''job_id'', (case map_of kvs ''job'' of None \<Rightarrow> JNull | Some v \<Rightarrow> v)),
             (''aap_url'', JStr (py_fmt (AAP_CONTROLLER_URL cfg) @ ''/#/jobs/playbook/''
                @ py_str (py_repr w)
                    (case map_of kvs ''job'' of None \<Rightarrow> JNull | Some v \<Rightarrow> v)))])"
  using assms
  by (simp add: launch_aap_job_try_def raise_for_status_ok response_json_def
        split: option.splits)

text \<open>
  Claim C4. With both settings configured and the template resolved, if the launch call
  is answered (no error status) with a JSON object, then \<open>launch_aap_job\<close> returns
  a success document, not an exception. When the object has no \<open>job\<close> field, \<open>job_id\<close>
  is \<open>None\<close> and the status URL is the base URL followed by \<open>/#/jobs/playbook/None\<close>;
  when the field is the integer \<open>j\<close>, \<open>job_id\<close> is \<open>j\<close> and the status URL is the
  base URL followed by \<open>/#/jobs/playbook/\<close> and the decimal text of \<open>j\<close>.
\<close>

theorem launch_success_job_field:
  assumes "AAP_CONTROLLER_URL cfg = Some base" and "base \<noteq> []"
      and "AAP_API_TOKEN cfg = Some tok" and "tok \<noteq> []"
      and "hdrs = [(''Content-Type'', ''application/json''),
                   (''Authorization'', ''Bearer '' @ tok)]"
      and "get_job_template_id cfg w (job_template_name job) hdrs = (calls, Inr template_id)"
      and "requests_post w
             (base @ ''/api/v2/job_templates/'' @ py_str (py_repr w) template_id @ ''/launch/'')
             hdrs (JDict [(''extra_vars'', JDict (extra_vars job))]) False
           = Returns launch_response"
      and "status_code launch_response < 400 \<or> 600 \<le> status_code launch_response"
      and "decoded launch_response = Inr (JDict kvs)"
  shows "(map_of kvs ''job'' = None \<longrightarrow>
            snd (launch_aap_job cfg w job) =
              Inr (JDict [
                (''status'', JStr ''success''),
                (''message'', JStr (''Successfully launched job template ''
                   @ quoted (job_template_name job) @ ''.'')),
                (''job_id'', JNull),
                (''aap_url'', JStr (base @ ''/#/jobs/playbook/None''))]))
         \<and> (\<forall>j. map_of kvs ''job'' = Some (JInt j) \<longrightarrow>
            snd (launch_aap_job cfg w job) =
              Inr (JDict [
                (''status'', JStr ''success''),
                (''message'', JStr (''Successfully launched job template ''
                   @ quoted (job_template_name job) @ ''.'')),
                (''job_id'', JInt j),
                (''aap_url'', JStr (base @ ''/#/jobs/playbook/'' @ str_int j))]))"
proof -
  have "snd (launch_aap_job cfg w job) =
          Inr (JDict [
             (''status'', JStr ''success''),
             (''message'', JStr (''Successfully launched job template ''
                @ quoted (job_template_name job) @ ''.'')),
             (''job_id'', (case map_of kvs ''job'' of None \<Rightarrow> JNull | Some v \<Rightarrow> v)),
             (''aap_url'', JStr (base @ ''/#/jobs/playbook/''
                @ py_str (py_repr w)
                    (case map_of kvs ''job'' of None \<Rightarrow> JNull | Some v \<Rightarrow> v)))])"
    using launch_aap_job_lookup_succeeded [OF assms(3,4), of w job calls template_id]
      launch_aap_job_try_decoded [OF _ assms(8,9), of w _ hdrs job cfg] assms(1,5,6,7)
    by simp
  then show ?thesis by simp
qed

theorem launch_success_job_field_witness:
  "snd (launch_aap_job demo_cfg
     (fixed_world (Returns (response_with 200 ''OK'' (lookup_data 1 [42])))
        (Returns (response_with 201 ''Created'' (JDict [(''job'', JInt 101)]))) (Created JNull))
     demo_job) =
     Inr (JDict [
       (''status'', JStr ''success''),
       (''message'', JStr ''Successfully launched job template 'Deploy-App'.''),
       (''job_id'', JInt 101),
       (''aap_url'', JStr ''https://aap.example.com/#/jobs/playbook/101'')])
   \<and> snd (launch_aap_job demo_cfg
     (fixed_world (Returns (response_with 200 ''OK'' (lookup_data 1 [42])))
        (Returns (response_with 201 ''Created'' (JDict [(''type'', JStr ''job'')])))
        (Created JNull))
     demo_job) =
     Inr (JDict [
       (''status'', JStr ''success''),
       (''message'', JStr ''Successfully launched job template 'Deploy-App'.''),
       (''job_id'', JNull),
       (''aap_url'', JStr ''https://aap.example.com/#/jobs/playbook/None'')])"
  using launch_success_job_field
    [of demo_cfg "''https://aap.example.com''" "''s3cret''" demo_headers
        "fixed_world (Returns (response_with 200 ''OK'' (lookup_data 1 [42])))
           (Returns (response_with 201 ''Created'' (JDict [(''job'', JInt 101)]))) (Created JNull)"
        demo_job
        "[GET ''https://aap.example.com/api/v2/job_templates/'' demo_headers
            [(''name'', ''Deploy-App'')] False]"
        "JInt 42"
        "response_with 201 ''Created'' (JDict [(''job'', JInt 101)])"
        "[(''job'', JInt 101)]"]
    launch_success_job_field
    [of demo_cfg "''https://aap.example.com''" "''s3cret''" demo_headers
        "fixed_world (Returns (response_with 200 ''OK'' (lookup_data 1 [42])))
           (Returns (response_with 201 ''Created'' (JDict [(''type'', JStr ''job'')])))
           (Created JNull)"
        demo_job
        "[GET ''https://aap.example.com/api/v2/job_templates/'' demo_headers
            [(''name'', ''Deploy-App'')] False]"
        "JInt 42"
        "response_with 201 ''Created'' (JDict [(''type'', JStr ''job'')])"
        "[(''type'', JStr ''job'')]"]
  by (simp add: demo_cfg_def demo_headers_def demo_job_def fixed_world_def response_with_def
        lookup_data_def quoted_def str_int_def str_nat.simps digit_char_def
        get_job_template_id_def get_job_template_id_try_def raise_for_status_def
        response_json_def)

text \<open>
  Claim C8 says every outbound call that returns a non-2xx status fails with 503.
  \<open>raise_for_status()\<close> raises for the status codes 400 to 599 only: a lookup answered
  with status 300 and a body with one match is not turned into a 503, the resolver
  returns the identifier.
\<close>

theorem non_2xx_counterexample:
  "get_job_template_id demo_cfg
     (fixed_world (Returns (response_with 300 ''Multiple Choices'' (lookup_data 1 [42])))
        (Raises []) (Created JNull))
     ''Deploy-App'' demo_headers =
   ([GET ''https://aap.example.com/api/v2/job_templates/'' demo_headers
       [(''name'', ''Deploy-App'')] False],
    Inr (JInt 42))"
  by (simp add: get_job_template_id_def get_job_template_id_try_def raise_for_status_def
        response_json_def demo_cfg_def fixed_world_def response_with_def lookup_data_def)

text \<open>
  Claim C8, as the code has it. With the base URL configured, a lookup call that raises
  a \<open>RequestException\<close> with text \<open>e\<close>, or that returns a response whose status
  code is from 400 to 599, makes \<open>get_job_template_id\<close> fail with status 503 and the
  detail \<open>Service Unavailable: Could not connect to AAP. Error: \<close> followed by the
  error text (for a status code, the text of the library's \<open>HTTPError\<close>). After a
  successful lookup, the same holds for the launch call, with the detail
  \<open>Service Unavailable: Failed to launch job in AAP. Error: \<close> followed by the text.
\<close>

theorem request_failure_service_unavailable:
  assumes "AAP_CONTROLLER_URL cfg = Some base" and "base \<noteq> []"
  shows "(requests_get w (base @ ''/api/v2/job_templates/'') h [(''name'', n)] False
            = Raises e \<longrightarrow>
          snd (get_job_template_id cfg w n h) =
            Inl (HTTPException 503
                   (''Service Unavailable: Could not connect to AAP. Error: '' @ e)))
       \<and> (requests_get w (base @ ''/api/v2/job_templates/'') h [(''name'', n)] False
            = Returns r \<and> 400 \<le> status_code r \<and> status_code r < 600 \<longrightarrow>
          snd (get_job_template_id cfg w n h) =
            Inl (HTTPException 503
                   (''Service Unavailable: Could not connect to AAP. Error: ''
                      @ str_int (status_code r)
                      @ (if status_code r < 500 then '' Client Error: ''
                         else '' Server Error: '')
                      @ resp_reason r @ '' for url: '' @ resp_url r)))
       \<and> (AAP_API_TOKEN cfg = Some tok \<and> tok \<noteq> []
          \<and> get_job_template_id cfg w (job_template_name job)
                [(''Content-Type'', ''application/json''),
                 (''Authorization'', ''Bearer '' @ tok)] = (calls, Inr template_id)
          \<and> requests_post w
                (base @ ''/api/v2/job_templates/'' @ py_str (py_repr w) template_id
                   @ ''/launch/'')
                [(''Content-Type'', ''application/json''),
                 (''Authorization'', ''Bearer '' @ tok)]
                (JDict [(''extra_vars'', JDict (extra_vars job))]) False = Raises e' \<longrightarrow>
          snd (launch_aap_job cfg w job) =
            Inl (HTTPException 503
                   (''Service Unavailable: Failed to launch job in AAP. Error: '' @ e')))
       \<and> (AAP_API_TOKEN cfg = Some tok \<and> tok \<noteq> []
          \<and> get_job_template_id cfg w (job_template_name job)
                [(''Content-Type'', ''application/json''),
                 (''Authorization'', ''Bearer '' @ tok)] = (calls, Inr template_id)
          \<and> requests_post w
                (base @ ''/api/v2/job_templates/'' @ py_str (py_repr w) template_id
                   @ ''/launch/'')
                [(''Content-Type'', ''application/json''),
                 (''Authorization'', ''Bearer '' @ tok)]
                (JDict [(''extra_vars'', JDict (extra_vars job))]) False = Returns r'
          \<and> 400 \<le> status_code r' \<and> status_code r' < 600 \<longrightarrow>
          snd (launch_aap_job cfg w job) =
            Inl (HTTPException 503
                   (''Service Unavailable: Failed to launch job in AAP. Error: ''
                      @ str_int (status_code r')
                      @ (if status_code r' < 500 then '' Client Error: ''
                         else '' Server Error: '')
                      @ resp_reason r' @ '' for url: '' @ resp_url r')))"
proof (intro conjI impI)
  have lookup: "snd (get_job_template_id cfg w n h) =
      except_RequestException ''Service Unavailable: Could not connect to AAP. Error: ''
        (get_job_template_id_try w (base @ ''/api/v2/job_templates/'') h [(''name'', n)] n)"
    using assms by (simp add: get_job_template_id_configured)
  {
    assume "requests_get w (base @ ''/api/v2/job_templates/'') h [(''name'', n)] False
              = Raises e"
    then show "snd (get_job_template_id cfg w n h) =
            Inl (HTTPException 503
                   (''Service Unavailable: Could not connect to AAP. Error: '' @ e))"
      using lookup by (simp add: get_job_template_id_try_def)
  }
  {
    assume a: "requests_get w (base @ ''/api/v2/job_templates/'') h [(''name'', n)] False
              = Returns r \<and> 400 \<le> status_code r \<and> status_code r < 600"
    then have "raise_for_status r =
           Inl (RequestException (str_int (status_code r)
                  @ (if status_code r < 500 then '' Client Error: '' else '' Server Error: '')
                  @ resp_reason r @ '' for url: '' @ resp_url r))"
      by (simp add: raise_for_status_error)
    with a show "snd (get_job_template_id cfg w n h) =
            Inl (HTTPException 503
                   (''Service Unavailable: Could not connect to AAP. Error: ''
                      @ str_int (status_code r)
                      @ (if status_code r < 500 then '' Client Error: ''
                         else '' Server Error: '')
                      @ resp_reason r @ '' for url: '' @ resp_url r))"
      using lookup by (simp add: get_job_template_id_try_def)
  }
  {
    assume a: "AAP_API_TOKEN cfg = Some tok \<and> tok \<noteq> []
          \<and> get_job_template_id cfg w (job_template_name job)
                [(''Content-Type'', ''application/json''),
                 (''Authorization'', ''Bearer '' @ tok)] = (calls, Inr template_id)
          \<and> requests_post w
                (base @ ''/api/v2/job_templates/'' @ py_str (py_repr w) template_id
                   @ ''/launch/'')
                [(''Content-Type'', ''application/json''),
                 (''Authorization'', ''Bearer '' @ tok)]
                (JDict [(''extra_vars'', JDict (extra_vars job))]) False = Raises e'"
    then show "snd (launch_aap_job cfg w job) =
            Inl (HTTPException 503
                   (''Service Unavailable: Failed to launch job in AAP. Error: '' @ e'))"
      using launch_aap_job_lookup_succeeded [of cfg tok w job calls template_id] assms(1)
      by (simp add: launch_aap_job_try_def)
  }
  {
    assume a: "AAP_API_TOKEN cfg = Some tok \<and> tok \<noteq> []
          \<and> get_job_template_id cfg w (job_template_name job)
                [(''Content-Type'', ''application/json''),
                 (''Authorization'', ''Bearer '' @ tok)] = (calls, Inr template_id)
          \<and> requests_post w
                (base @ ''/api/v2/job_templates/'' @ py_str (py_repr w) template_id
                   @ ''/launch/'')
                [(''Content-Type'', ''application/json''),
                 (''Authorization'', ''Bearer '' @ tok)]
                (JDict [(''extra_vars'', JDict (extra_vars job))]) False = Returns r'
          \<and> 400 \<le> status_code r' \<and> status_code r' < 600"
    then have "raise_for_status r' =
           Inl (RequestException (str_int (status_code r')
                  @ (if status_code r' < 500 then '' Client Error: '' else '' Server Error: '')
                  @ resp_reason r' @ '' for url: '' @ resp_url r'))"
      by (simp add: raise_for_status_error)
    with a show "snd (launch_aap_job cfg w job) =
            Inl (HTTPException 503
                   (''Service Unavailable: Failed to launch job in AAP. Error: ''
                      @ str_int (status_code r')
                      @ (if status_code r' < 500 then '' Client Error: ''
                         else '' Server Error: '')
                      @ resp_reason r' @ '' for url: '' @ resp_url r'))"
      using launch_aap_job_lookup_succeeded [of cfg tok w job calls template_id] assms(1)
      by (simp add: launch_aap_job_try_def)
  }
qed

theorem request_failure_service_unavailable_witness:
  "snd (get_job_template_id demo_cfg
          (fixed_world (Raises ''Connection refused'') (Raises []) (Created JNull))
          ''Deploy-App'' demo_headers) =
     Inl (HTTPException 503
       ''Service Unavailable: Could not connect to AAP. Error: Connection refused'')
   \<and> snd (get_job_template_id demo_cfg
          (fixed_world (Returns (response_with 404 ''Not Found'' JNull)) (Raises [])
             (Created JNull))
          ''Deploy-App'' demo_headers) =
     Inl (HTTPException 503
       ''Service Unavailable: Could not connect to AAP. Error: 404 Client Error: Not Found for url: https://aap.example.com/api/v2/job_templates/'')
   \<and> snd (launch_aap_job demo_cfg
          (fixed_world (Returns (response_with 200 ''OK'' (lookup_data 1 [42])))
             (Raises ''Read timed out'') (Created JNull))
          demo_job) =
     Inl (HTTPException 503
       ''Service Unavailable: Failed to launch job in AAP. Error: Read timed out'')
   \<and> snd (launch_aap_job demo_cfg
          (fixed_world (Returns (response_with 200 ''OK'' (lookup_data 1 [42])))
             (Returns (response_with 500 ''Internal Server Error'' JNull)) (Created JNull))
          demo_job) =
     Inl (HTTPException 503
       ''Service Unavailable: Failed to launch job in AAP. Error: 500 Server Error: Internal Server Error for url: https://aap.example.com/api/v2/job_templates/'')"
  using
    request_failure_service_unavailable
      [of demo_cfg "''https://aap.example.com''"
          "fixed_world (Raises ''Connection refused'') (Raises []) (Created JNull)"
          demo_headers "''Deploy-App''" "''Connection refused''"]
    request_failure_service_unavailable
      [of demo_cfg "''https://aap.example.com''"
          "fixed_world (Returns (response_with 404 ''Not Found'' JNull)) (Raises [])
             (Created JNull)"
          demo_headers "''Deploy-App''" _ "response_with 404 ''Not Found'' JNull"]
    request_failure_service_unavailable
      [of demo_cfg "''https://aap.example.com''"
          "fixed_world (Returns (response_with 200 ''OK'' (lookup_data 1 [42])))
             (Raises ''Read timed out'') (Created JNull)"
          _ _ _ _ "''s3cret''" demo_job
          "[GET ''https://aap.example.com/api/v2/job_templates/'' demo_headers
              [(''name'', ''Deploy-App'')] False]"
          "JInt 42" "''Read timed out''"]
    request_failure_service_unavailable
      [of demo_cfg "''https://aap.example.com''"
          "fixed_world (Returns (response_with 200 ''OK'' (lookup_data 1 [42])))
             (Returns (response_with 500 ''Internal Server Error'' JNull)) (Created JNull)"
          _ _ _ _ "''s3cret''" demo_job
          "[GET ''https://aap.example.com/api/v2/job_templates/'' demo_headers
              [(''name'', ''Deploy-App'')] False]"
          "JInt 42" _ "response_with 500 ''Internal Server Error'' JNull"]
  by (simp add: demo_cfg_def demo_headers_def demo_job_def fixed_world_def response_with_def
        lookup_data_def str_int_def str_nat.simps digit_char_def
        get_job_template_id_def get_job_template_id_try_def raise_for_status_def
        response_json_def)

section \<open>The VM provisioning workflow\<close>

text \<open>
  Claim C7. When the cluster's create call raises an \<open>ApiException\<close> with status
  \<open>st\<close> and reason \<open>rs\<close>, \<open>create_vm\<close> fails with an \<open>HTTPException\<close> whose status
  code is \<open>st\<close> and whose detail is
  \<open>Kubernetes API Error: Failed to create VM. Reason: \<close> followed by \<open>rs\<close> unchanged.
\<close>

theorem create_vm_api_exception_surfaced:
  assumes "create_namespaced_custom_object w ''kubevirt.io'' ''v1'' (namespace vm)
             ''virtualmachines'' (vm_manifest vm) = RaisesApiException st rs"
  shows "snd (create_vm w vm) =
           Inl (HTTPException st
                  (''Kubernetes API Error: Failed to create VM. Reason: '' @ rs))"
  using assms by (simp add: create_vm_def Let_def)

theorem create_vm_api_exception_surfaced_witness:
  "snd (create_vm
          (fixed_world (Raises []) (Raises []) (RaisesApiException 409 ''AlreadyExists''))
          demo_vm) =
     Inl (HTTPException 409 ''Kubernetes API Error: Failed to create VM. Reason: AlreadyExists'')"
  using create_vm_api_exception_surfaced
    [of "fixed_world (Raises []) (Raises []) (RaisesApiException 409 ''AlreadyExists'')"
        demo_vm 409 "''AlreadyExists''"]
  by (simp add: fixed_world_def)

text \<open>
  Claim C2. For every request, \<open>create_vm\<close> makes exactly one outbound call: a create
  of a namespaced custom object with group \<open>kubevirt.io\<close>, version \<open>v1\<close>, the
  request's namespace, plural \<open>virtualmachines\<close>, and as body the fixed manifest:
  apiVersion \<open>kubevirt.io/v1\<close>, kind \<open>VirtualMachine\<close>, \<open>spec.running\<close> false, one disk
  named \<open>containerdisk\<close>, one volume of that name with the image
  \<open>quay.io/containerdisks/rhel:9\<close>, memory request \<open>2Gi\<close>. The manifest's metadata is
  the name alone, and the manifest does not depend on the namespace.
\<close>

theorem create_vm_submits_fixed_manifest:
  "fst (create_vm w vm) =
     [CreateNamespacedCustomObject ''kubevirt.io'' ''v1'' (namespace vm) ''virtualmachines''
        (JDict [
           (''apiVersion'', JStr ''kubevirt.io/v1''),
           (''kind'', JStr ''VirtualMachine''),
           (''metadata'', JDict [(''name'', JStr (vm_name vm))]),
           (''spec'', JDict [
              (''running'', JBool False),
              (''template'', JDict [
                 (''spec'', JDict [
                    (''domain'', JDict [
                       (''devices'', JDict [
                          (''disks'', JList [
                             JDict [(''name'', JStr ''containerdisk''),
                                    (''disk'', JDict [(''bus'', JStr ''virtio'')])]])]),
                       (''resources'', JDict [
                          (''requests'', JDict [(''memory'', JStr ''2Gi'')])])]),
                    (''volumes'', JList [
                       JDict [(''name'', JStr ''containerdisk''),
                              (''containerDisk'', JDict [
                                 (''image'', JStr ''quay.io/containerdisks/rhel:9'')])]])])])])])]
   \<and> getitem (vm_manifest vm) ''metadata'' = Inr (JDict [(''name'', JStr (vm_name vm))])
   \<and> vm_manifest (vm\<lparr>namespace := ns\<rparr>) = vm_manifest vm"
  by (simp add: create_vm_def vm_manifest_def Let_def)

text \<open>
  Claim C9. The outcome of \<open>create_vm\<close> (calls made and result) is the same under any
  two configurations of the automation controller's base URL and token, unset ones
  included, and it is never one of the two \<open>is not configured\<close> failures.
\<close>

theorem create_vm_independent_of_aap_settings:
  "app cfg w (CreateVm vm) = app cfg' w (CreateVm vm)
   \<and> snd (app cfg w (CreateVm vm)) \<noteq>
       Inl (HTTPException 500 ''AAP_API_TOKEN is not configured.'')
   \<and> snd (app cfg w (CreateVm vm)) \<noteq>
       Inl (HTTPException 500 ''AAP_CONTROLLER_URL is not configured.'')"
  by (simp add: create_vm_def Let_def split: k8s_reply.splits)

text \<open>
  By contrast the job launch endpoint does read them: the same request in the same world
  has different outcomes under a configured and an unconfigured process.
\<close>

lemma launch_aap_job_depends_on_aap_settings:
  "app demo_cfg
     (fixed_world (Returns (response_with 200 ''OK'' (lookup_data 0 []))) (Raises [])
        (Created JNull))
     (LaunchAapJob demo_job)
   \<noteq> app \<lparr>AAP_CONTROLLER_URL = None, AAP_API_TOKEN = None\<rparr>
     (fixed_world (Returns (response_with 200 ''OK'' (lookup_data 0 []))) (Raises [])
        (Created JNull))
     (LaunchAapJob demo_job)"
  by (simp add: launch_aap_job_def get_job_template_id_def get_job_template_id_try_def
        raise_for_status_def response_json_def demo_cfg_def demo_job_def fixed_world_def
        response_with_def lookup_data_def)

section \<open>Empty strings\<close>

lemma launch_aap_job_first_call:
  assumes "AAP_CONTROLLER_URL cfg = Some base" and "base \<noteq> []"
      and "AAP_API_TOKEN cfg = Some tok" and "tok \<noteq> []"
  shows "take 1 (fst (launch_aap_job cfg w job)) =
           [GET (base @ ''/api/v2/job_templates/'')
              [(''Content-Type'', ''application/json''),
               (''Authorization'', ''Bearer '' @ tok)]
              [(''name'', job_template_name job)] False]"
proof -
  let ?h = "[(''Content-Type'', ''application/json''), (''Authorization'', ''Bearer '' @ tok)]"
  let ?g = "GET (base @ ''/api/v2/job_templates/'') ?h [(''name'', job_template_name job)] False"
  have calls: "fst (get_job_template_id cfg w (job_template_name job) ?h) = [?g]"
    using assms(1,2) by (simp add: get_job_template_id_configured)
  show ?thesis
  proof (cases "snd (get_job_template_id cfg w (job_template_name job) ?h)")
    case (Inl e)
    with calls have "get_job_template_id cfg w (job_template_name job) ?h = ([?g], Inl e)"
      by (simp add: prod_eq_iff)
    from launch_aap_job_lookup_failed [OF assms(3,4) this] show ?thesis by simp
  next
    case (Inr template_id)
    with calls
    have "get_job_template_id cfg w (job_template_name job) ?h = ([?g], Inr template_id)"
      by (simp add: prod_eq_iff)
    from launch_aap_job_lookup_succeeded [OF assms(3,4) this] show ?thesis by simp
  qed
qed

text \<open>
  Claim C10. Neither endpoint validates its strings. For a request whose \<open>vm_name\<close> or
  \<open>namespace\<close> is empty, \<open>create_vm\<close> still makes its one create call, with the
  namespace as given and a manifest whose \<open>metadata.name\<close> is the name as given, and
  returns success when the cluster accepts the call. For a request whose
  \<open>job_template_name\<close> is empty, with both settings configured, the first outbound call
  of \<open>launch_aap_job\<close> is the lookup with the query parameter \<open>name\<close> equal to the
  empty string.
\<close>

theorem empty_strings_passed_through:
  "(vm_name vm = [] \<or> namespace vm = [] \<longrightarrow>
            fst (create_vm w vm) =
              [CreateNamespacedCustomObject ''kubevirt.io'' ''v1'' (namespace vm)
                 ''virtualmachines'' (vm_manifest vm)]
            \<and> getitem (vm_manifest vm) ''metadata'' = Inr (JDict [(''name'', JStr (vm_name vm))])
            \<and> (create_namespaced_custom_object w ''kubevirt.io'' ''v1'' (namespace vm)
                  ''virtualmachines'' (vm_manifest vm) = Created obj \<longrightarrow>
                snd (create_vm w vm) =
                  Inr (JDict [
                    (''status'', JStr ''success''),
                    (''message'', JStr (''VirtualMachine '' @ quoted (vm_name vm)
                       @ '' created successfully in namespace '' @ quoted (namespace vm)
                       @ ''.''))])))
       \<and> (AAP_CONTROLLER_URL cfg = Some base \<and> base \<noteq> []
          \<and> AAP_API_TOKEN cfg = Some tok \<and> tok \<noteq> []
          \<and> job_template_name job = [] \<longrightarrow>
            take 1 (fst (launch_aap_job cfg w job)) =
              [GET (base @ ''/api/v2/job_templates/'')
                 [(''Content-Type'', ''application/json''),
                  (''Authorization'', ''Bearer '' @ tok)]
                 [(''name'', [])] False])"
proof (intro conjI impI)
  show "fst (create_vm w vm) =
              [CreateNamespacedCustomObject ''kubevirt.io'' ''v1'' (namespace vm)
                 ''virtualmachines'' (vm_manifest vm)]"
    by (simp add: create_vm_def Let_def)
  show "getitem (vm_manifest vm) ''metadata'' = Inr (JDict [(''name'', JStr (vm_name vm))])"
    by (simp add: vm_manifest_def)
  show "snd (create_vm w vm) =
                  Inr (JDict [
                    (''status'', JStr ''success''),
                    (''message'', JStr (''VirtualMachine '' @ quoted (vm_name vm)
                       @ '' created successfully in namespace '' @ quoted (namespace vm)
                       @ ''.''))])"
    if "create_namespaced_custom_object w ''kubevirt.io'' ''v1'' (namespace vm)
                  ''virtualmachines'' (vm_manifest vm) = Created obj"
    using that by (simp add: create_vm_def Let_def)
  show "take 1 (fst (launch_aap_job cfg w job)) =
              [GET (base @ ''/api/v2/job_templates/'')
                 [(''Content-Type'', ''application/json''),
                  (''Authorization'', ''Bearer '' @ tok)]
                 [(''name'', [])] False]"
    if "AAP_CONTROLLER_URL cfg = Some base \<and> base \<noteq> []
          \<and> AAP_API_TOKEN cfg = Some tok \<and> tok \<noteq> []
          \<and> job_template_name job = []"
    using launch_aap_job_first_call [of cfg base tok w job] that by simp
qed

theorem empty_strings_passed_through_witness:
  "create_vm (fixed_world (Raises []) (Raises []) (Created JNull))
      \<lparr>vm_name = [], namespace = []\<rparr> =
     ([CreateNamespacedCustomObject ''kubevirt.io'' ''v1'' [] ''virtualmachines''
         (vm_manifest \<lparr>vm_name = [], namespace = []\<rparr>)],
      Inr (JDict [
        (''status'', JStr ''success''),
        (''message'', JStr (''VirtualMachine '' @ [CHR 0x27, CHR 0x27]
           @ '' created successfully in namespace '' @ [CHR 0x27, CHR 0x27] @ ''.''))]))
   \<and> getitem (vm_manifest \<lparr>vm_name = [], namespace = []\<rparr>) ''metadata'' =
       Inr (JDict [(''name'', JStr [])])
   \<and> take 1 (fst (launch_aap_job demo_cfg
         (fixed_world (Raises []) (Raises []) (Created JNull))
         \<lparr>job_template_name = [], extra_vars = []\<rparr>)) =
       [GET ''https://aap.example.com/api/v2/job_templates/'' demo_headers
          [(''name'', [])] False]"
  using empty_strings_passed_through
    [of "\<lparr>vm_name = [], namespace = []\<rparr>"
        "fixed_world (Raises []) (Raises []) (Created JNull)" JNull
        demo_cfg "''https://aap.example.com''" "''s3cret''"
        "\<lparr>job_template_name = [], extra_vars = []\<rparr>"]
  by (simp add: demo_cfg_def demo_headers_def fixed_world_def quoted_def prod_eq_iff)

end
